theory Spec2Isabelle
  imports Main "HOL-Library.Char_ord" "HOL-Library.List_Lexorder" "HOL-Library.AList"
begin

section \<open>The actions barrel module (common/actions/index.ts)\<close>

text \<open>
  The module under study:
  \<^verbatim>\<open>
  import { Action } from './models/action';
  import { MenuAction } from './models/menuAction';
  import { ActionView } from './views/actionView';
  import { MenuActionView } from './views/menuActionView';

  export const Actions = {
      Action,
      ActionView,
      MenuAction,
      MenuActionView,
  };
  \<close>
  The values the four collaborators export are not part of this file, so they are a type
  parameter \<open>'v\<close>: a class, a marker string or \<open>undefined\<close> alike. Two values of \<open>'v\<close> are
  the same reference exactly when they are equal.
\<close>

subsection \<open>Objects\<close>

text \<open>
  A plain object with string keys: its own data properties in creation order, which is
  the order every enumeration of the keys follows.
\<close>

type_synonym 'v object = "(string \<times> 'v) list"

text \<open>
  The object's own property \<open>k\<close>. For a key the object has, this is what reading
  \<open>ob.k\<close> yields. \<open>None\<close> says that the object has no own property of that name; a
  read then goes on to the prototype chain (\<open>read_prop\<close> below).
\<close>

definition get_prop :: "'v object \<Rightarrow> string \<Rightarrow> 'v option" where
  "get_prop ob k = map_of ob k"

text \<open>
  Reading \<open>ob.k\<close> in full: the own property when there is one, otherwise what the
  prototype chain yields for \<open>k\<close>. The chain belongs to the host, so its lookup \<open>proto\<close>
  is a parameter; \<open>None\<close> is undefined.
\<close>

definition read_prop :: "(string \<Rightarrow> 'v option) \<Rightarrow> 'v object \<Rightarrow> string \<Rightarrow> 'v option" where
  "read_prop proto ob k = (case get_prop ob k of Some v \<Rightarrow> Some v | None \<Rightarrow> proto k)"

text \<open>\<open>Object.keys(ob)\<close>: the keys in creation order.\<close>

definition object_keys :: "'v object \<Rightarrow> string list" where
  "object_keys ob = map fst ob"

subsection \<open>The import declarations (lines 1 to 4)\<close>

text \<open>The imported name and the module it comes from, in the order of the file.\<close>

definition import_declarations :: "(string \<times> string) list" where
  "import_declarations =
     [(''Action'', ''./models/action''),
      (''MenuAction'', ''./models/menuAction''),
      (''ActionView'', ''./views/actionView''),
      (''MenuActionView'', ''./views/menuActionView'')]"

definition import_names :: "string list" where
  "import_names = map fst import_declarations"

text \<open>The four import bindings of the module scope, once every import has resolved.\<close>

record 'v bindings =
  Action :: 'v
  MenuAction :: 'v
  ActionView :: 'v
  MenuActionView :: 'v

subsection \<open>The exported object (lines 7 to 12)\<close>

text \<open>
  The object literal. A shorthand property \<open>Action,\<close> is the key \<open>Action\<close> holding the
  value of the binding \<open>Action\<close>; the properties are created in the order written.
\<close>

definition Actions :: "'v bindings \<Rightarrow> 'v object" where
  "Actions b =
     [(''Action'', Action b),
      (''ActionView'', ActionView b),
      (''MenuAction'', MenuAction b),
      (''MenuActionView'', MenuActionView b)]"

text \<open>
  What the module exports: each export name with its value. The file has one export
  declaration, \<open>export const Actions\<close>. A default export would be listed under the name
  \<open>default\<close>.
\<close>

definition module_exports :: "'v bindings \<Rightarrow> (string \<times> 'v object) list" where
  "module_exports b = [(''Actions'', Actions b)]"

text \<open>
  The namespace object as the specification words it: the mapping that sends each of the
  four names to the value its collaborator exports, listed as in the specification
  (both models, then both views), and nothing else.
\<close>

definition spec_Actions :: "'v bindings \<Rightarrow> (string \<rightharpoonup> 'v)" where
  "spec_Actions b =
     [''Action'' \<mapsto> Action b,
      ''MenuAction'' \<mapsto> MenuAction b,
      ''ActionView'' \<mapsto> ActionView b,
      ''MenuActionView'' \<mapsto> MenuActionView b]"

text \<open>Some concrete values: \<open>undefined\<close>, a string, a reference to a class.\<close>

datatype jsval = JUndefined | JString string | JClass nat

subsection \<open>Loading the module\<close>

text \<open>
  What the host finds when it follows one import declaration. The collaborator module
  cannot be resolved; or it is resolved and does not export the imported name, which
  fails the linking of this module; or its own initialisation fails; or, in an import
  cycle, it is still being initialised when this module's body runs, so that the
  imported binding exists and cannot be read yet; or the binding can be read and holds
  the value exported under the imported name. The failure \<open>'e\<close> is whatever the
  host raises in each case.
\<close>

datatype ('e, 'v) dependency =
    CannotResolve 'e
  | LacksExport 'e
  | InitFails 'e
  | Uninitialized 'e
  | Provides 'v

text \<open>The four collaborator modules, named after their paths, in the order imported.\<close>

record ('e, 'v) collaborators =
  models_action :: "('e, 'v) dependency"
  models_menuAction :: "('e, 'v) dependency"
  views_actionView :: "('e, 'v) dependency"
  views_menuActionView :: "('e, 'v) dependency"

definition bind_result :: "'e + 'a \<Rightarrow> ('a \<Rightarrow> 'e + 'b) \<Rightarrow> 'e + 'b" where
  "bind_result r f = (case r of Inl e \<Rightarrow> Inl e | Inr x \<Rightarrow> f x)"

text \<open>
  A load goes through three passes over the import declarations, each in the order of
  the file: every requested module is resolved, then the imported names are linked to
  the collaborators' exports, then the collaborators are initialised. A collaborator
  that is already being initialised (an import cycle) is not initialised again.
\<close>

fun resolve_dependency :: "('e, 'v) dependency \<Rightarrow> 'e + unit" where
  "resolve_dependency (CannotResolve e) = Inl e"
| "resolve_dependency (LacksExport e) = Inr ()"
| "resolve_dependency (InitFails e) = Inr ()"
| "resolve_dependency (Uninitialized e) = Inr ()"
| "resolve_dependency (Provides v) = Inr ()"

fun link_dependency :: "('e, 'v) dependency \<Rightarrow> 'e + unit" where
  "link_dependency (CannotResolve e) = Inl e"
| "link_dependency (LacksExport e) = Inl e"
| "link_dependency (InitFails e) = Inr ()"
| "link_dependency (Uninitialized e) = Inr ()"
| "link_dependency (Provides v) = Inr ()"

fun initialize_dependency :: "('e, 'v) dependency \<Rightarrow> 'e + unit" where
  "initialize_dependency (CannotResolve e) = Inl e"
| "initialize_dependency (LacksExport e) = Inl e"
| "initialize_dependency (InitFails e) = Inl e"
| "initialize_dependency (Uninitialized e) = Inr ()"
| "initialize_dependency (Provides v) = Inr ()"

definition each_import ::
  "(('e, 'v) dependency \<Rightarrow> 'e + unit) \<Rightarrow> ('e, 'v) collaborators \<Rightarrow> 'e + unit" where
  "each_import pass c =
     bind_result (pass (models_action c)) (\<lambda>_.
     bind_result (pass (models_menuAction c)) (\<lambda>_.
     bind_result (pass (views_actionView c)) (\<lambda>_.
     pass (views_menuActionView c))))"

text \<open>
  The environment the module's code runs in: what each identifier it could mention is
  bound to. A binding holds a value, or reading it raises (an import not yet
  initialised, a name that is not declared). The environment has the four import
  bindings and, under them, whatever the host puts in scope: globals, the clock, a
  random source.
\<close>

datatype ('e, 'v) binding_state = Unreadable 'e | Holds 'v

type_synonym ('e, 'v) environment = "string \<Rightarrow> ('e, 'v) binding_state"

fun read_binding :: "('e, 'v) binding_state \<Rightarrow> 'e + 'v" where
  "read_binding (Unreadable e) = Inl e"
| "read_binding (Holds v) = Inr v"

fun binding_of :: "('e, 'v) dependency \<Rightarrow> ('e, 'v) binding_state" where
  "binding_of (CannotResolve e) = Unreadable e"
| "binding_of (LacksExport e) = Unreadable e"
| "binding_of (InitFails e) = Unreadable e"
| "binding_of (Uninitialized e) = Unreadable e"
| "binding_of (Provides v) = Holds v"

text \<open>The import declarations put the four bindings over the ambient environment.\<close>

definition module_scope ::
  "('e, 'v) environment \<Rightarrow> ('e, 'v) collaborators \<Rightarrow> ('e, 'v) environment" where
  "module_scope ambient c =
     ambient
       (''Action'' := binding_of (models_action c),
        ''MenuAction'' := binding_of (models_menuAction c),
        ''ActionView'' := binding_of (views_actionView c),
        ''MenuActionView'' := binding_of (views_menuActionView c))"

text \<open>
  The module's own top-level code, lines 7 to 12, once the four bindings hold the values
  \<open>b\<close>: one \<open>const\<close> declaration whose initialiser is the object literal. It has no
  statement that throws. Its outcome is a sum so that a throw would be a value: \<open>Inl\<close>.
\<close>

definition module_body :: "'env \<Rightarrow> 'v bindings \<Rightarrow> 'e + (string \<times> 'v object) list" where
  "module_body env b = Inr (module_exports b)"

text \<open>
  The same code in an environment whose bindings need not be readable. The object
  literal reads the four identifiers in the order of its properties (lines 8 to 11); a
  binding that cannot be read raises there and ends the evaluation.
\<close>

definition evaluate_body :: "('e, 'v) environment \<Rightarrow> 'e + (string \<times> 'v object) list" where
  "evaluate_body scope =
     bind_result (read_binding (scope ''Action'')) (\<lambda>a.
     bind_result (read_binding (scope ''ActionView'')) (\<lambda>av.
     bind_result (read_binding (scope ''MenuAction'')) (\<lambda>ma.
     bind_result (read_binding (scope ''MenuActionView'')) (\<lambda>mav.
     module_body scope
       \<lparr>Action = a, MenuAction = ma, ActionView = av, MenuActionView = mav\<rparr>))))"

text \<open>The whole load: the three passes over the imports, then the module's code.\<close>

definition load_module ::
  "('e, 'v) environment \<Rightarrow> ('e, 'v) collaborators \<Rightarrow> 'e + (string \<times> 'v object) list" where
  "load_module ambient c =
     bind_result (each_import resolve_dependency c) (\<lambda>_.
     bind_result (each_import link_dependency c) (\<lambda>_.
     bind_result (each_import initialize_dependency c) (\<lambda>_.
     evaluate_body (module_scope ambient c))))"





text \<open>An ambient environment for examples: no identifier is declared in it.\<close>

definition bare_environment :: "(string, jsval) environment" where
  "bare_environment n = Unreadable (''ReferenceError: '' @ n @ '' is not defined'')"

subsection \<open>The loaded module at run time\<close>

text \<open>
  Once loaded, the module instance holds one object. \<open>Actions_ref\<close> is its identity,
  the address the host allocated for the object literal and the value of the \<open>const\<close>
  binding; \<open>Actions_obj\<close> is the object's current contents.
\<close>

type_synonym addr = nat

record 'v module_instance =
  Actions_ref :: addr
  Actions_obj :: "'v object"

definition initialized :: "addr \<Rightarrow> 'v bindings \<Rightarrow> 'v module_instance" where
  "initialized at b = \<lparr>Actions_ref = at, Actions_obj = Actions b\<rparr>"

text \<open>The four properties the object literal creates.\<close>

datatype member = M_Action | M_ActionView | M_MenuAction | M_MenuActionView

fun member_name :: "member \<Rightarrow> string" where
  "member_name M_Action = ''Action''"
| "member_name M_ActionView = ''ActionView''"
| "member_name M_MenuAction = ''MenuAction''"
| "member_name M_MenuActionView = ''MenuActionView''"

text \<open>
  Assigning \<open>ob.m = v\<close> to one of them. The literal creates writable data properties
  and the object is not frozen, so the property takes the new value and keeps its place.
\<close>

definition set_member :: "'v object \<Rightarrow> member \<Rightarrow> 'v \<Rightarrow> 'v object" where
  "set_member ob m v = AList.update (member_name m) v ob"

text \<open>
  What other code does with the loaded module: import \<open>Actions\<close> again, look up an own
  property, or assign to one of the four properties. The file itself offers the first
  two. The third is open to any holder of the reference, because the object is not
  frozen. (A holder can do more to an object that is not frozen, such as adding or
  deleting properties; the assignments are enough for what follows.)
\<close>

datatype 'v access = ImportActions | ReadProp string | WriteProp member 'v

datatype 'v observed = Reference addr | Value "'v option" | Assigned 'v

text \<open>
  An import of an initialised module does not run its body again: it hands out the
  reference held by the binding. The four properties are data properties, so reading
  one is a lookup.
\<close>

fun access_step :: "'v module_instance \<Rightarrow> 'v access \<Rightarrow> 'v observed \<times> 'v module_instance" where
  "access_step s ImportActions = (Reference (Actions_ref s), s)"
| "access_step s (ReadProp k) = (Value (get_prop (Actions_obj s) k), s)"
| "access_step s (WriteProp m v) = (Assigned v, s\<lparr>Actions_obj := set_member (Actions_obj s) m v\<rparr>)"

fun run :: "'v module_instance \<Rightarrow> 'v access list \<Rightarrow> 'v observed list \<times> 'v module_instance" where
  "run s [] = ([], s)"
| "run s (a # acs) =
     (case access_step s a of (x, s') \<Rightarrow>
        (case run s' acs of (xs, s'') \<Rightarrow> (x # xs, s'')))"

fun is_read :: "'v access \<Rightarrow> bool" where
  "is_read ImportActions = True"
| "is_read (ReadProp k) = True"
| "is_read (WriteProp m v) = False"

subsection \<open>Constructing and calling through the object\<close>

datatype js_error = TypeError

text \<open>The receiver a call passes as \<open>this\<close>.\<close>

datatype 'v receiver = ThisUndefined | ThisObject "'v object"

text \<open>
  What a value does when constructed or called belongs to the host and to the
  collaborator that defines it: \<open>construct f args\<close> is the outcome of \<open>new f(args)\<close>
  and \<open>call f this args\<close> the outcome of calling \<open>f\<close> with receiver \<open>this\<close>. Both are
  parameters here. Through the object, \<open>new ob.k(args)\<close> and \<open>ob.k(args)\<close> first read
  the property, and the call passes the object as receiver; on the import binding,
  \<open>new K(args)\<close> and \<open>K(args)\<close> use the binding's value, and the call passes no
  receiver (module code is strict). A property that reads as undefined is neither
  constructible nor callable.
\<close>

definition new_member ::
  "('v \<Rightarrow> 'a \<Rightarrow> 'r) \<Rightarrow> (string \<Rightarrow> 'v option) \<Rightarrow> 'v object \<Rightarrow> string \<Rightarrow> 'a \<Rightarrow> js_error + 'r" where
  "new_member construct proto ob k args =
     (case read_prop proto ob k of
        None \<Rightarrow> Inl TypeError
      | Some f \<Rightarrow> Inr (construct f args))"

definition new_binding :: "('v \<Rightarrow> 'a \<Rightarrow> 'r) \<Rightarrow> 'v \<Rightarrow> 'a \<Rightarrow> js_error + 'r" where
  "new_binding construct f args = Inr (construct f args)"

definition call_member ::
  "('v \<Rightarrow> 'v receiver \<Rightarrow> 'a \<Rightarrow> 'r) \<Rightarrow> (string \<Rightarrow> 'v option) \<Rightarrow> 'v object \<Rightarrow> string \<Rightarrow> 'a
     \<Rightarrow> js_error + 'r" where
  "call_member call proto ob k args =
     (case read_prop proto ob k of
        None \<Rightarrow> Inl TypeError
      | Some f \<Rightarrow> Inr (call f (ThisObject ob) args))"

definition call_binding :: "('v \<Rightarrow> 'v receiver \<Rightarrow> 'a \<Rightarrow> 'r) \<Rightarrow> 'v \<Rightarrow> 'a \<Rightarrow> js_error + 'r" where
  "call_binding call f args = Inr (call f ThisUndefined args)"

text \<open>
  For examples: a function-style constructor whose body is \<open>return this\<close>, called
  without \<open>new\<close>; and a prototype chain that holds nothing.
\<close>

fun returns_receiver :: "'v \<Rightarrow> 'v receiver \<Rightarrow> 'a \<Rightarrow> 'v receiver" where
  "returns_receiver f this args = this"

definition no_inherited :: "string \<Rightarrow> 'v option" where
  "no_inherited k = None"

section \<open>Properties\<close>

subsection \<open>Lookups in the exported object\<close>

lemma keys_Actions:
  "object_keys (Actions b) = [''Action'', ''ActionView'', ''MenuAction'', ''MenuActionView'']"
  by (simp add: object_keys_def Actions_def)

lemma get_prop_Actions:
  "get_prop (Actions b) ''Action'' = Some (Action b)"
  "get_prop (Actions b) ''MenuAction'' = Some (MenuAction b)"
  "get_prop (Actions b) ''ActionView'' = Some (ActionView b)"
  "get_prop (Actions b) ''MenuActionView'' = Some (MenuActionView b)"
  by (simp_all add: get_prop_def Actions_def)

lemma get_prop_Actions_spec: "get_prop (Actions b) = spec_Actions b"
proof (rule ext)
  fix k
  show "get_prop (Actions b) k = spec_Actions b k"
    by (simp add: get_prop_def Actions_def spec_Actions_def)
qed

subsection \<open>Shape of the exported object\<close>

text \<open>
  C1. The exported object has exactly the four keys Action, ActionView, MenuAction and
  MenuActionView: each occurs once, there are four of them, no other name is an own
  property of the object, and as a set they are the names the module imports.
\<close>

theorem Actions_keys_complete:
  "set (object_keys (Actions b)) = {''Action'', ''ActionView'', ''MenuAction'', ''MenuActionView''}
   \<and> distinct (object_keys (Actions b))
   \<and> length (object_keys (Actions b)) = 4
   \<and> set (object_keys (Actions b)) = set import_names
   \<and> dom (get_prop (Actions b)) = {''Action'', ''ActionView'', ''MenuAction'', ''MenuActionView''}"
proof -
  have names: "set import_names = {''Action'', ''ActionView'', ''MenuAction'', ''MenuActionView''}"
    by (auto simp: import_names_def import_declarations_def)
  have d: "dom (get_prop (Actions b)) = set (object_keys (Actions b))"
    by (simp add: get_prop_def[abs_def] object_keys_def dom_map_of_conv_image_fst)
  show ?thesis
    unfolding d names by (simp add: keys_Actions)
qed

text \<open>
  C2. For each of the four keys, the value read from the exported object is the very value
  imported under that name: nothing is copied, wrapped or transformed. As a mapping the
  object is the one the specification describes, for whatever the collaborators export;
  with four marker strings exported it is the object holding those four markers.
\<close>

theorem Actions_identity_preserved:
  "get_prop (Actions b) ''Action'' = Some (Action b)
   \<and> get_prop (Actions b) ''MenuAction'' = Some (MenuAction b)
   \<and> get_prop (Actions b) ''ActionView'' = Some (ActionView b)
   \<and> get_prop (Actions b) ''MenuActionView'' = Some (MenuActionView b)
   \<and> get_prop (Actions b) = spec_Actions b
   \<and> map snd (Actions b) = [Action b, ActionView b, MenuAction b, MenuActionView b]
   \<and> Actions \<lparr>Action = JString ''ACTION_MARKER'', MenuAction = JString ''MENUACTION_MARKER'',
               ActionView = JString ''ACTIONVIEW_MARKER'',
               MenuActionView = JString ''MENUACTIONVIEW_MARKER''\<rparr>
       = [(''Action'', JString ''ACTION_MARKER''), (''ActionView'', JString ''ACTIONVIEW_MARKER''),
          (''MenuAction'', JString ''MENUACTION_MARKER''),
          (''MenuActionView'', JString ''MENUACTIONVIEW_MARKER'')]"
proof (intro conjI)
  show "get_prop (Actions b) = spec_Actions b"
    by (rule get_prop_Actions_spec)
qed (simp_all add: get_prop_def Actions_def)

text \<open>
  C3. The module provides one named export, Actions, and nothing else: no default export
  and no other name. The exported value is the object with the four keys, each holding
  the imported value unchanged.
\<close>

theorem module_exports_only_Actions:
  "map fst (module_exports b) = [''Actions'']
   \<and> map_of (module_exports b) n = (if n = ''Actions'' then Some (Actions b) else None)
   \<and> map_of (module_exports b) ''default'' = None
   \<and> map_option get_prop (map_of (module_exports b) ''Actions'') = Some (spec_Actions b)
   \<and> map_option object_keys (map_of (module_exports b) ''Actions'')
       = Some [''Action'', ''ActionView'', ''MenuAction'', ''MenuActionView'']"
  by (simp add: module_exports_def keys_Actions get_prop_Actions_spec)

text \<open>
  C8. The properties are created in the order Action, ActionView, MenuAction,
  MenuActionView, which is alphabetical and is what an enumeration of the keys yields.
  The import declarations come in another order: both models, then both views.
\<close>

theorem Actions_key_order:
  "object_keys (Actions b) = [''Action'', ''ActionView'', ''MenuAction'', ''MenuActionView'']
   \<and> sorted_wrt (<) (object_keys (Actions b))
   \<and> import_names = [''Action'', ''MenuAction'', ''ActionView'', ''MenuActionView'']
   \<and> map snd import_declarations
       = [''./models/action'', ''./models/menuAction'', ''./views/actionView'',
          ''./views/menuActionView'']
   \<and> object_keys (Actions b) \<noteq> import_names
   \<and> \<not> sorted import_names"
  by (simp add: keys_Actions import_names_def import_declarations_def)

subsection \<open>Loading\<close>

lemma evaluate_body_Holds:
  "scope ''Action'' = Holds a \<Longrightarrow> scope ''MenuAction'' = Holds ma \<Longrightarrow>
   scope ''ActionView'' = Holds av \<Longrightarrow> scope ''MenuActionView'' = Holds mav \<Longrightarrow>
     evaluate_body scope
       = Inr (module_exports \<lparr>Action = a, MenuAction = ma, ActionView = av, MenuActionView = mav\<rparr>)"
  by (simp add: evaluate_body_def bind_result_def module_body_def)

lemma evaluate_body_cong:
  "scope1 ''Action'' = scope2 ''Action'' \<Longrightarrow> scope1 ''MenuAction'' = scope2 ''MenuAction'' \<Longrightarrow>
   scope1 ''ActionView'' = scope2 ''ActionView'' \<Longrightarrow>
   scope1 ''MenuActionView'' = scope2 ''MenuActionView'' \<Longrightarrow>
     evaluate_body scope1 = evaluate_body scope2"
  by (simp add: evaluate_body_def module_body_def)

lemma evaluate_module_scope:
  "evaluate_body (module_scope ambient c) =
     bind_result (read_binding (binding_of (models_action c))) (\<lambda>a.
     bind_result (read_binding (binding_of (views_actionView c))) (\<lambda>av.
     bind_result (read_binding (binding_of (models_menuAction c))) (\<lambda>ma.
     bind_result (read_binding (binding_of (views_menuActionView c))) (\<lambda>mav.
     Inr (module_exports
       \<lparr>Action = a, MenuAction = ma, ActionView = av, MenuActionView = mav\<rparr>)))))"
  by (simp add: evaluate_body_def module_scope_def module_body_def)

lemma load_module_cases:
  "load_module ambient c =
     bind_result (each_import resolve_dependency c) (\<lambda>_.
     bind_result (each_import link_dependency c) (\<lambda>_.
     bind_result (each_import initialize_dependency c) (\<lambda>_.
     bind_result (read_binding (binding_of (models_action c))) (\<lambda>a.
     bind_result (read_binding (binding_of (views_actionView c))) (\<lambda>av.
     bind_result (read_binding (binding_of (models_menuAction c))) (\<lambda>ma.
     bind_result (read_binding (binding_of (views_menuActionView c))) (\<lambda>mav.
     Inr (module_exports
       \<lparr>Action = a, MenuAction = ma, ActionView = av, MenuActionView = mav\<rparr>))))))))"
  by (simp add: load_module_def evaluate_module_scope)




text \<open>
  C10. Once the four bindings hold values, the module's own top-level code completes
  without throwing, whatever the four values are, undefined included: its outcome is
  always the exports, never a failure. With all four collaborators providing a value the
  whole load succeeds.
\<close>

theorem module_body_never_throws:
  "(module_body env b :: 'e + (string \<times> 'v object) list) = Inr (module_exports b)
   \<and> \<not> isl (module_body env b :: 'e + (string \<times> 'v object) list)
   \<and> (module_body env \<lparr>Action = JUndefined, MenuAction = JUndefined, ActionView = JUndefined,
                        MenuActionView = JUndefined\<rparr> :: 'e + (string \<times> jsval object) list)
       = Inr [(''Actions'', [(''Action'', JUndefined), (''ActionView'', JUndefined),
                             (''MenuAction'', JUndefined), (''MenuActionView'', JUndefined)])]
   \<and> (load_module env
        \<lparr>models_action = Provides a, models_menuAction = Provides ma,
         views_actionView = Provides av, views_menuActionView = Provides mav\<rparr>
        :: 'e + (string \<times> 'v object) list)
       = Inr (module_exports \<lparr>Action = a, MenuAction = ma, ActionView = av, MenuActionView = mav\<rparr>)"
proof (intro conjI)
  show "(load_module env
        \<lparr>models_action = Provides a, models_menuAction = Provides ma,
         views_actionView = Provides av, views_menuActionView = Provides mav\<rparr>
        :: 'e + (string \<times> 'v object) list)
       = Inr (module_exports \<lparr>Action = a, MenuAction = ma, ActionView = av, MenuActionView = mav\<rparr>)"
    by (simp add: load_module_cases each_import_def bind_result_def)
qed (simp_all add: module_body_def module_exports_def Actions_def)

text \<open>
  C9. Building the exports is deterministic and depends on the four imported values
  only. Two evaluations of the module's code in environments that agree on the four
  import bindings have the same outcome, however the environments differ elsewhere
  (globals, clock, random source); when the bindings hold values, the outcome is the
  object made of those four values. A load from the same collaborators has the same
  outcome under any two ambient environments.
\<close>

theorem Actions_deterministic:
  "scope1 ''Action'' = scope2 ''Action'' \<Longrightarrow> scope1 ''MenuAction'' = scope2 ''MenuAction'' \<Longrightarrow>
   scope1 ''ActionView'' = scope2 ''ActionView'' \<Longrightarrow>
   scope1 ''MenuActionView'' = scope2 ''MenuActionView'' \<Longrightarrow>
     evaluate_body scope1 = evaluate_body scope2
     \<and> (scope1 ''Action'' = Holds a \<and> scope1 ''MenuAction'' = Holds ma
          \<and> scope1 ''ActionView'' = Holds av \<and> scope1 ''MenuActionView'' = Holds mav \<longrightarrow>
        evaluate_body scope1
          = Inr [(''Actions'', [(''Action'', a), (''ActionView'', av),
                                (''MenuAction'', ma), (''MenuActionView'', mav)])]
        \<and> evaluate_body scope2
          = Inr [(''Actions'', [(''Action'', a), (''ActionView'', av),
                                (''MenuAction'', ma), (''MenuActionView'', mav)])])
     \<and> load_module ambient1 c = load_module ambient2 c"
proof (intro conjI impI)
  assume agree: "scope1 ''Action'' = scope2 ''Action''" "scope1 ''MenuAction'' = scope2 ''MenuAction''"
    "scope1 ''ActionView'' = scope2 ''ActionView''"
    "scope1 ''MenuActionView'' = scope2 ''MenuActionView''"
  show same: "evaluate_body scope1 = evaluate_body scope2"
    using agree by (rule evaluate_body_cong)
  show "load_module ambient1 c = load_module ambient2 c"
    by (simp add: load_module_cases)
  assume held: "scope1 ''Action'' = Holds a \<and> scope1 ''MenuAction'' = Holds ma
          \<and> scope1 ''ActionView'' = Holds av \<and> scope1 ''MenuActionView'' = Holds mav"
  then show first: "evaluate_body scope1
          = Inr [(''Actions'', [(''Action'', a), (''ActionView'', av),
                                (''MenuAction'', ma), (''MenuActionView'', mav)])]"
    by (simp add: evaluate_body_Holds module_exports_def Actions_def)
  with same show "evaluate_body scope2
          = Inr [(''Actions'', [(''Action'', a), (''ActionView'', av),
                                (''MenuAction'', ma), (''MenuActionView'', mav)])]"
    by simp
qed

theorem Actions_deterministic_witness:
  "evaluate_body
     (bare_environment
        (''Date'' := Holds (JString ''Monday''), ''Action'' := Holds (JClass 1),
         ''MenuAction'' := Holds (JClass 2), ''ActionView'' := Holds (JString ''v''),
         ''MenuActionView'' := Holds JUndefined))
   = evaluate_body
     (bare_environment
        (''Action'' := Holds (JClass 1), ''MenuAction'' := Holds (JClass 2),
         ''ActionView'' := Holds (JString ''v''), ''MenuActionView'' := Holds JUndefined,
         ''Date'' := Holds (JString ''Tuesday''), ''random'' := Holds (JClass 77)))
   \<and> evaluate_body
     (bare_environment
        (''Action'' := Holds (JClass 1), ''MenuAction'' := Holds (JClass 2),
         ''ActionView'' := Holds (JString ''v''), ''MenuActionView'' := Holds JUndefined,
         ''Date'' := Holds (JString ''Tuesday''), ''random'' := Holds (JClass 77)))
   = Inr [(''Actions'', [(''Action'', JClass 1), (''ActionView'', JString ''v''),
                         (''MenuAction'', JClass 2), (''MenuActionView'', JUndefined)])]
   \<and> (bare_environment (''Date'' := Holds (JString ''Monday''))) ''Date''
       \<noteq> (bare_environment (''Date'' := Holds (JString ''Tuesday''))) ''Date''"
  using Actions_deterministic [of
      "bare_environment
        (''Date'' := Holds (JString ''Monday''), ''Action'' := Holds (JClass 1),
         ''MenuAction'' := Holds (JClass 2), ''ActionView'' := Holds (JString ''v''),
         ''MenuActionView'' := Holds JUndefined)"
      "bare_environment
        (''Action'' := Holds (JClass 1), ''MenuAction'' := Holds (JClass 2),
         ''ActionView'' := Holds (JString ''v''), ''MenuActionView'' := Holds JUndefined,
         ''Date'' := Holds (JString ''Tuesday''), ''random'' := Holds (JClass 77))"
      "JClass 1" "JClass 2" "JString ''v''" JUndefined
      bare_environment
      "\<lparr>models_action = Provides (JClass 1), models_menuAction = Provides (JClass 2),
        views_actionView = Provides (JString ''v''), views_menuActionView = Provides JUndefined\<rparr>"
      "bare_environment (''Date'' := Holds (JString ''Tuesday''))"]
  by simp

subsection \<open>Using the loaded module\<close>

text \<open>
  C5. Two successive reads of a property return the same value, and a read leaves the
  module instance as it was: it is a lookup that creates nothing. This holds for every
  key and every state of the object; for the four keys of the freshly loaded object both
  reads return the imported value.
\<close>

theorem property_read_stable:
  "fst (access_step (snd (access_step s (ReadProp k))) (ReadProp k)) = fst (access_step s (ReadProp k))
   \<and> snd (access_step s (ReadProp k)) = s
   \<and> run s [ReadProp k, ReadProp k]
       = ([Value (get_prop (Actions_obj s) k), Value (get_prop (Actions_obj s) k)], s)
   \<and> run (initialized at b) [ReadProp ''Action'', ReadProp ''Action'']
       = ([Value (Some (Action b)), Value (Some (Action b))], initialized at b)
   \<and> run (initialized at b) [ReadProp ''ActionView'', ReadProp ''ActionView'']
       = ([Value (Some (ActionView b)), Value (Some (ActionView b))], initialized at b)
   \<and> run (initialized at b) [ReadProp ''MenuAction'', ReadProp ''MenuAction'']
       = ([Value (Some (MenuAction b)), Value (Some (MenuAction b))], initialized at b)
   \<and> run (initialized at b) [ReadProp ''MenuActionView'', ReadProp ''MenuActionView'']
       = ([Value (Some (MenuActionView b)), Value (Some (MenuActionView b))], initialized at b)"
  by (simp add: initialized_def get_prop_Actions)

lemma run_reads:
  "list_all is_read ops \<Longrightarrow> run s ops = (map (\<lambda>a. fst (access_step s a)) ops, s)"
proof (induction ops)
  case Nil
  show ?case by simp
next
  case (Cons a ops)
  then have rest: "run s ops = (map (\<lambda>a. fst (access_step s a)) ops, s)"
    by simp
  from Cons.prems have "is_read a" by simp
  then show ?case
  proof (cases a)
    case ImportActions
    with rest show ?thesis by simp
  next
    case (ReadProp k)
    with rest show ?thesis by simp
  next
    case (WriteProp m v)
    with \<open>is_read a\<close> show ?thesis by simp
  qed
qed

lemma access_step_keeps_reference: "Actions_ref (snd (access_step s a)) = Actions_ref s"
  by (cases a) simp_all

lemma run_keeps_reference: "Actions_ref (snd (run s ops)) = Actions_ref s"
proof (induction ops arbitrary: s)
  case Nil
  show ?case by simp
next
  case (Cons a ops)
  obtain x s' where step: "access_step s a = (x, s')"
    by (cases "access_step s a")
  obtain xs s'' where rest: "run s' ops = (xs, s'')"
    by (cases "run s' ops")
  from Cons.IH [of s'] rest have "Actions_ref s'' = Actions_ref s'"
    by simp
  moreover from access_step_keeps_reference [of s a] step have "Actions_ref s' = Actions_ref s"
    by simp
  ultimately show ?case
    using step rest by simp
qed

text \<open>
  C7. The module exports the object and no operation that writes to it, an
  import does not run the body again and a lookup changes nothing: through any sequence
  of imports and lookups the instance keeps its reference and its contents, and every
  observation is the one the freshly loaded module gives. The reference held by the
  binding stays the same through every sequence of accesses, assignments included. The
  contents are not protected against assignments by other code.
\<close>

theorem Actions_unchanged_after_load:
  "list_all is_read ops \<Longrightarrow>
     snd (run (initialized at b) ops) = initialized at b
     \<and> Actions_ref (snd (run (initialized at b) ops)) = at
     \<and> Actions_obj (snd (run (initialized at b) ops)) = Actions b
     \<and> fst (run (initialized at b) ops) = map (\<lambda>a. fst (access_step (initialized at b) a)) ops
     \<and> map fst (module_exports b) = [''Actions'']
     \<and> Actions_ref (snd (run (initialized at b) acs)) = at"
  by (simp add: run_reads module_exports_def run_keeps_reference) (simp add: initialized_def)

theorem Actions_unchanged_after_load_witness:
  "list_all is_read [ImportActions, ReadProp ''Action'', ImportActions, ReadProp ''MenuActionView'',
       ReadProp ''Action'', ReadProp ''absent'' :: jsval access]
   \<and> run (initialized 7 \<lparr>Action = JClass 1, MenuAction = JClass 2, ActionView = JClass 3,
                          MenuActionView = JClass 4\<rparr>)
      [ImportActions, ReadProp ''Action'', ImportActions, ReadProp ''MenuActionView'',
       ReadProp ''Action'', ReadProp ''absent'']
     = ([Reference 7, Value (Some (JClass 1)), Reference 7, Value (Some (JClass 4)),
         Value (Some (JClass 1)), Value None],
        initialized 7 \<lparr>Action = JClass 1, MenuAction = JClass 2, ActionView = JClass 3,
                        MenuActionView = JClass 4\<rparr>)
   \<and> Actions_ref (snd (run (initialized 7 \<lparr>Action = JClass 1, MenuAction = JClass 2,
                          ActionView = JClass 3, MenuActionView = JClass 4\<rparr>)
        [WriteProp M_MenuAction (JString ''w''), ImportActions])) = 7"
proof -
  have reads: "list_all is_read [ImportActions, ReadProp ''Action'', ImportActions,
      ReadProp ''MenuActionView'', ReadProp ''Action'', ReadProp ''absent'' :: jsval access]"
    by simp
  from Actions_unchanged_after_load [OF reads, of 7
      "\<lparr>Action = JClass 1, MenuAction = JClass 2, ActionView = JClass 3, MenuActionView = JClass 4\<rparr>"
      "[WriteProp M_MenuAction (JString ''w''), ImportActions]"]
  show ?thesis
    by (simp add: initialized_def get_prop_def Actions_def)
qed

text \<open>
  The statement without the restriction to imports and lookups does not hold: the
  object is not frozen, so an assignment to \<open>Actions.Action\<close> takes effect. The lookup
  after it yields the assigned value, not the one established at load time, and the
  contents are no longer those of the loaded object.
\<close>

theorem Actions_changed_by_assignment:
  "run (initialized 7 \<lparr>Action = JClass 1, MenuAction = JClass 2, ActionView = JClass 3,
                        MenuActionView = JClass 4\<rparr>)
      [ReadProp ''Action'', WriteProp M_Action (JClass 9), ReadProp ''Action'', ImportActions]
     = ([Value (Some (JClass 1)), Assigned (JClass 9), Value (Some (JClass 9)), Reference 7],
        \<lparr>Actions_ref = 7,
         Actions_obj = [(''Action'', JClass 9), (''ActionView'', JClass 3),
                        (''MenuAction'', JClass 2), (''MenuActionView'', JClass 4)]\<rparr>)
   \<and> Actions_obj (snd (run (initialized 7 \<lparr>Action = JClass 1, MenuAction = JClass 2,
                        ActionView = JClass 3, MenuActionView = JClass 4\<rparr>)
        [WriteProp M_Action (JClass 9)]))
     \<noteq> Actions \<lparr>Action = JClass 1, MenuAction = JClass 2, ActionView = JClass 3,
                  MenuActionView = JClass 4\<rparr>"
  by (simp add: initialized_def set_member_def Actions_def get_prop_def)

lemma assignment_is_not_guarded:
  "run (initialized at b) [WriteProp M_Action v, ReadProp ''Action'', ImportActions]
     = ([Assigned v, Value (Some v), Reference at],
        \<lparr>Actions_ref = at,
         Actions_obj = [(''Action'', v), (''ActionView'', ActionView b),
                        (''MenuAction'', MenuAction b), (''MenuActionView'', MenuActionView b)]\<rparr>)"
  by (simp add: initialized_def set_member_def Actions_def get_prop_def)

subsection \<open>Constructing and calling through the object\<close>

lemma read_prop_Actions:
  "read_prop proto (Actions b) ''Action'' = Some (Action b)"
  "read_prop proto (Actions b) ''MenuAction'' = Some (MenuAction b)"
  by (simp_all add: read_prop_def get_prop_Actions)

text \<open>
  C6. Instantiating with \<open>new\<close> through \<open>Actions.Action\<close> or
  \<open>Actions.MenuAction\<close> gives exactly what instantiating the collaborator's export
  directly gives, whatever construction does and whatever the prototype chain holds. A
  plain call through the object calls that same export with the same arguments and with
  the \<open>Actions\<close> object as receiver, where a direct call passes no receiver; the object
  changes nothing else.
\<close>

theorem construct_through_Actions:
  "new_member construct proto (Actions b) ''Action'' args = new_binding construct (Action b) args
   \<and> new_member construct proto (Actions b) ''MenuAction'' args
       = new_binding construct (MenuAction b) args
   \<and> call_member call proto (Actions b) ''Action'' args
       = Inr (call (Action b) (ThisObject (Actions b)) args)
   \<and> call_member call proto (Actions b) ''MenuAction'' args
       = Inr (call (MenuAction b) (ThisObject (Actions b)) args)
   \<and> call_binding call (Action b) args = Inr (call (Action b) ThisUndefined args)
   \<and> call_binding call (MenuAction b) args = Inr (call (MenuAction b) ThisUndefined args)"
  by (simp add: new_member_def new_binding_def call_member_def call_binding_def
      read_prop_Actions)

text \<open>
  Invoking does not in general give the same result both ways. A function-style
  constructor that returns its receiver, called without \<open>new\<close>, returns the \<open>Actions\<close>
  object when called through it and undefined when called directly.
\<close>

theorem call_through_Actions_differs:
  "call_member returns_receiver no_inherited
      (Actions \<lparr>Action = JClass 1, MenuAction = JClass 2, ActionView = JClass 3,
                MenuActionView = JClass 4\<rparr>) ''Action'' [JString ''x'']
     = Inr (ThisObject [(''Action'', JClass 1), (''ActionView'', JClass 3),
                        (''MenuAction'', JClass 2), (''MenuActionView'', JClass 4)])
   \<and> call_binding returns_receiver (JClass 1) [JString ''x''] = Inr ThisUndefined
   \<and> call_member returns_receiver no_inherited
      (Actions \<lparr>Action = JClass 1, MenuAction = JClass 2, ActionView = JClass 3,
                MenuActionView = JClass 4\<rparr>) ''Action'' [JString ''x'']
     \<noteq> call_binding returns_receiver
         (Action \<lparr>Action = JClass 1, MenuAction = JClass 2, ActionView = JClass 3,
                  MenuActionView = JClass 4\<rparr>) [JString ''x'']"
  by (simp add: call_member_def call_binding_def read_prop_def get_prop_def Actions_def)

end
